theory Spec2Isabelle
  imports Main "HOL-Library.AList"
begin

section \<open>Exceptions and Python values\<close>

text \<open>
  The exceptions that the modelled functions can see.  The first group is the hierarchy that
  \<^verbatim>\<open>_rezapi.py\<close> imports from \<^verbatim>\<open>rez.exceptions\<close>; the second group are
  Python's own; \<open>UserError\<close> is the type that \<^verbatim>\<open>cli.py\<close> creates with
  \<^verbatim>\<open>type("UserError", (Exception,), {})\<close>.  \<open>SystemExit\<close> is what
  \<^verbatim>\<open>exit(n)\<close> raises; it is the only one that is not a subclass of
  \<^verbatim>\<open>Exception\<close>.
\<close>

datatype exception =
    PackageFamilyNotFoundError
  | RexUndefinedVariableError
  | ResolvedContextError
  | RexError
  | PackageCommandError
  | PackageRequestError
  | PackageNotFoundError string
  | RezError
  | SuiteError
  | IOError
  | IndexError
  | KeyError
  | ValueError string
  | ImportError
  | SyntaxError
  | PlainException string
  | UserError string
  | SystemExit int

fun is_rez_exception :: "exception \<Rightarrow> bool" where
  "is_rez_exception PackageFamilyNotFoundError = True"
| "is_rez_exception RexUndefinedVariableError = True"
| "is_rez_exception ResolvedContextError = True"
| "is_rez_exception RexError = True"
| "is_rez_exception PackageCommandError = True"
| "is_rez_exception PackageRequestError = True"
| "is_rez_exception (PackageNotFoundError m) = True"
| "is_rez_exception RezError = True"
| "is_rez_exception SuiteError = True"
| "is_rez_exception e = False"

text \<open>What \<^verbatim>\<open>except Exception\<close> catches: everything but \<open>SystemExit\<close>.\<close>

fun is_Exception :: "exception \<Rightarrow> bool" where
  "is_Exception (SystemExit n) = False"
| "is_Exception e = True"

text \<open>Python values, as far as the modelled code tells them apart.\<close>

datatype pyval =
    PNone
  | PBool bool
  | PInt int
  | PStr string
  | PList "pyval list"

text \<open>Truth value of an object, as \<^verbatim>\<open>if x:\<close> tests it.\<close>

fun truthy :: "pyval \<Rightarrow> bool" where
  "truthy PNone = False"
| "truthy (PBool b) = b"
| "truthy (PInt i) = (i \<noteq> 0)"
| "truthy (PStr s) = (s \<noteq> [])"
| "truthy (PList xs) = (xs \<noteq> [])"

text \<open>Python's \<^verbatim>\<open>==\<close>: a bool is the integer 0 or 1, other types compare within themselves.\<close>

fun py_eq :: "pyval \<Rightarrow> pyval \<Rightarrow> bool" where
  "py_eq (PBool a) (PInt i) = ((if a then 1 else 0) = i)"
| "py_eq (PInt i) (PBool a) = (i = (if a then 1 else 0))"
| "py_eq a b = (a = b)"

text \<open>\<^verbatim>\<open>xs[-1]\<close>: the last element, \<open>IndexError\<close> on an empty sequence.\<close>

definition last_item :: "'a list \<Rightarrow> exception + 'a" where
  "last_item xs = (case xs of [] \<Rightarrow> Inl IndexError | _ # _ \<Rightarrow> Inr (last xs))"

text \<open>\<^verbatim>\<open>s.split(sep)\<close> for a one-character separator, and \<^verbatim>\<open>sep.join(parts)\<close>.\<close>

fun split :: "char \<Rightarrow> string \<Rightarrow> string list" where
  "split sep [] = [[]]"
| "split sep (c # cs) =
     (if c = sep then [] # split sep cs
      else (case split sep cs of [] \<Rightarrow> [[c]] | w # ws \<Rightarrow> (c # w) # ws))"

fun join :: "string \<Rightarrow> string list \<Rightarrow> string" where
  "join sep [] = []"
| "join sep [w] = w"
| "join sep (w # ws) = w @ sep @ join sep ws"

section \<open>\<^verbatim>\<open>_rezapi.py\<close>: the package queries\<close>

record 'v package =
  pkg_name :: string
  pkg_version :: 'v

text \<open>
  \<^verbatim>\<open>find\<close> is \<^verbatim>\<open>rez.packages_.iter_packages(name, range_=None, paths=None)\<close>, a
  function of the wrapped library: it is the parameter \<open>rez_find\<close> here.  It yields
  packages or raises.
\<close>

type_synonym ('r, 'v) finder =
  "string \<Rightarrow> 'r option \<Rightarrow> string list option \<Rightarrow> exception + 'v package list"

text \<open>\<^verbatim>\<open>next(it)\<close>; an exhausted iterator raises \<^verbatim>\<open>StopIteration\<close>, an \<open>Exception\<close>.\<close>

definition find_one ::
  "('r, 'v) finder \<Rightarrow> string \<Rightarrow> 'r option \<Rightarrow> string list option \<Rightarrow> exception + 'v package" where
  "find_one rez_find name vrange paths =
     (case rez_find name vrange paths of
        Inl e \<Rightarrow> Inl e
      | Inr [] \<Rightarrow> Inl (PlainException ''StopIteration'')
      | Inr (p # ps) \<Rightarrow> Inr p)"

definition find_latest ::
  "('r, 'v::linorder) finder \<Rightarrow> string \<Rightarrow> 'r option \<Rightarrow> string list option
     \<Rightarrow> exception + 'v package" where
  "find_latest rez_find name vrange paths =
     (case rez_find name vrange None of
        Inl e \<Rightarrow> Inl e
      | Inr it \<Rightarrow>
          (case last_item (sort_key pkg_version it) of
             Inl e \<Rightarrow> Inl (PackageNotFoundError (''package family not found: '' @ name))
           | Inr p \<Rightarrow> Inr p))"

section \<open>\<^verbatim>\<open>resources.py\<close>: resource files, pixmaps, palettes\<close>

text \<open>
  The functions of \<^verbatim>\<open>os.path\<close> that \<^verbatim>\<open>resources.py\<close> calls belong to the Python
  library; the operations below take them as a parameter.
\<close>

record os_path =
  path_join :: "string \<Rightarrow> string list \<Rightarrow> string"
  normpath :: "string \<Rightarrow> string"
  splitext :: "string \<Rightarrow> string \<times> string"

text \<open>\<^verbatim>\<open>fname.replace("\\", "/")\<close>; the backslash is character \<open>0x5C\<close>.\<close>

definition replace_backslash :: "string \<Rightarrow> string" where
  "replace_backslash fname = map (\<lambda>c. if c = CHR 0x5C then CHR ''/'' else c) fname"

definition find_resources :: "os_path \<Rightarrow> string \<Rightarrow> string list \<Rightarrow> string" where
  "find_resources os dirname paths =
     (let fname = path_join os dirname (''resources'' # paths);
          fname = normpath os fname
      in replace_backslash fname)"

text \<open>A \<^verbatim>\<open>QtGui.QPixmap\<close> is known by the file name its constructor was given.\<close>

datatype qpixmap = QPixmap string

type_synonym pixmap_cache = "string list \<rightharpoonup> qpixmap"

text \<open>
  \<^verbatim>\<open>pixmap(*paths)\<close> with the module's \<^verbatim>\<open>_cache\<close> passed in and out.  The third
  component lists the file names handed to the \<^verbatim>\<open>QPixmap\<close> constructor during the call.
  \<^verbatim>\<open>paths[-1]\<close> raises on an empty argument list, before anything else happens; the
  local \<^verbatim>\<open>path\<close> gets its \<^verbatim>\<open>".png"\<close> and is then not used.
\<close>

definition pixmap ::
  "os_path \<Rightarrow> string \<Rightarrow> pixmap_cache \<Rightarrow> string list
     \<Rightarrow> (exception + qpixmap) \<times> pixmap_cache \<times> string list" where
  "pixmap os dirname cache paths =
     (let path = find_resources os dirname paths in
      case last_item paths of
        Inl e \<Rightarrow> (Inl e, cache, [])
      | Inr basename \<Rightarrow>
          (let (name, ext) = splitext os basename;
               path = (if ext = [] then path @ ''.png'' else path)
           in case cache paths of
                Some pm \<Rightarrow> (Inr pm, cache, [])
              | None \<Rightarrow>
                  (let pm = QPixmap (find_resources os dirname paths)
                   in (Inr pm, cache(paths \<mapsto> pm), [find_resources os dirname paths]))))"

text \<open>
  Palettes: a dictionary is an association list in insertion order; \<^verbatim>\<open>d.update(other)\<close>
  stores the entries of \<^verbatim>\<open>other\<close> one by one, replacing the value of a key that is
  already there and appending a new key.  Keys are Python values, as nothing in
  \<^verbatim>\<open>load_palettes\<close> looks at them.
\<close>

type_synonym palette = "(string \<times> string) list"
type_synonym palettes = "(pyval \<times> palette) list"

definition dict_update :: "('k \<times> 'v) list \<Rightarrow> ('k \<times> 'v) list \<Rightarrow> ('k \<times> 'v) list" where
  "dict_update d other = fold (\<lambda>(k, v). AList.update k v) other d"

definition builtin_palettes :: palettes where
  "builtin_palettes =
     [(PStr ''dark'',
        [(''brightest'', ''#403E3D''), (''bright'', ''#383635''), (''base'', ''#2E2C2C''),
         (''dim'', ''#21201F''), (''dimmest'', ''#141413''),
         (''highlight'', ''#69D6C2''), (''highlighted'', ''#111111''),
         (''active'', ''silver''), (''inactive'', ''dimGray'')]),
      (PStr ''light'',
        [(''brightest'', ''#E9EAE6''), (''bright'', ''#DBDFDE''), (''base'', ''#D7D8D2''),
         (''dim'', ''#B3BABD''), (''dimmest'', ''#AEAEAF''),
         (''highlight'', ''#69D6C2''), (''highlighted'', ''#111111''),
         (''active'', ''black''), (''inactive'', ''darkSlateGray'')])]"

text \<open>
  \<^verbatim>\<open>allzparkconfig.palettes\<close> is \<open>None\<close> (nothing configured) or a mapping; an empty
  mapping is as false as \<open>None\<close>.
\<close>

definition load_palettes :: "palettes option \<Rightarrow> palettes" where
  "load_palettes config_palettes =
     (case config_palettes of
        None \<Rightarrow> builtin_palettes
      | Some other \<Rightarrow> if other \<noteq> [] then dict_update builtin_palettes other else builtin_palettes)"

fun is_str :: "pyval \<Rightarrow> bool" where
  "is_str (PStr s) = True"
| "is_str v = False"

text \<open>The POSIX versions of the three \<^verbatim>\<open>os.path\<close> functions, to evaluate with.\<close>

definition posix_join :: "string \<Rightarrow> string list \<Rightarrow> string" where
  "posix_join a p =
     fold (\<lambda>b path.
             if take 1 b = ''/'' then b
             else if path = [] \<or> last path = CHR ''/'' then path @ b
             else path @ ''/'' @ b) p a"

definition normpath_step :: "nat \<Rightarrow> string \<Rightarrow> string list \<Rightarrow> string list" where
  "normpath_step initial_slashes component new_comps =
     (if component = [] \<or> component = ''.'' then new_comps
      else if component \<noteq> ''..'' \<or> (initial_slashes = 0 \<and> new_comps = [])
                \<or> (new_comps \<noteq> [] \<and> last new_comps = ''..'')
        then new_comps @ [component]
      else if new_comps \<noteq> [] then butlast new_comps
      else new_comps)"

definition posix_normpath :: "string \<Rightarrow> string" where
  "posix_normpath path =
     (if path = [] then ''.''
      else
        (let initial_slashes =
               (if take 1 path = ''/''
                then (if take 2 path = ''//'' \<and> take 3 path \<noteq> ''///'' then 2 else 1)
                else (0::nat));
             comps = fold (normpath_step initial_slashes) (split CHR ''/'' path) [];
             path = replicate initial_slashes CHR ''/'' @ join ''/'' comps
         in if path = [] then ''.'' else path))"

text \<open>\<^verbatim>\<open>s.rfind(c)\<close>: the last position of \<open>c\<close>, or \<open>-1\<close>.\<close>

definition rfind :: "char \<Rightarrow> string \<Rightarrow> int" where
  "rfind c s =
     (if c \<in> set s then int (length s) - 1 - int (length (takeWhile (\<lambda>x. x \<noteq> c) (rev s)))
      else - 1)"

definition posix_splitext :: "string \<Rightarrow> string \<times> string" where
  "posix_splitext p =
     (let sepIndex = rfind CHR ''/'' p;
          dotIndex = rfind CHR ''.'' p
      in if dotIndex > sepIndex
            \<and> list_ex (\<lambda>x. x \<noteq> CHR ''.'')
                 (take (nat (dotIndex - (sepIndex + 1))) (drop (nat (sepIndex + 1)) p))
         then (take (nat dotIndex) p, drop (nat dotIndex) p)
         else (p, []))"

definition posix :: os_path where
  "posix = \<lparr>path_join = posix_join, normpath = posix_normpath, splitext = posix_splitext\<rparr>"

section \<open>\<^verbatim>\<open>delegates.py\<close>: the version editor of a package\<close>

text \<open>
  What \<^verbatim>\<open>model.data(index, role)\<close> answers for the three roles that
  \<^verbatim>\<open>setModelData\<close> asks for.
\<close>

record item =
  family :: string
  versions :: "string list"
  default_version :: string

type_synonym 'i item_model = "'i \<Rightarrow> item"

text \<open>\<^verbatim>\<open>xs[i]\<close>: a negative index counts from the end, out of range raises.\<close>

definition py_index :: "'a list \<Rightarrow> int \<Rightarrow> exception + 'a" where
  "py_index xs i =
     (let n = int (length xs); j = (if i < 0 then n + i else i)
      in if 0 \<le> j \<and> j < n then Inr (xs ! nat j) else Inl IndexError)"

text \<open>
  \<^verbatim>\<open>Package.setModelData(editor, model, index)\<close>.  The editor is a combo box, of which
  only \<^verbatim>\<open>currentIndex()\<close> is read.  The controller lives in \<^verbatim>\<open>control.py\<close>; its
  \<^verbatim>\<open>patch\<close> is the parameter \<open>patch\<close>, acting on a controller state.  The result is
  the exception raised (if any), the controller, the model, and the requests that
  \<^verbatim>\<open>patch\<close> was called with.
\<close>

definition setModelData ::
  "(string \<Rightarrow> 'c \<Rightarrow> 'c) \<Rightarrow> int \<Rightarrow> 'i item_model \<Rightarrow> 'i \<Rightarrow> 'c
     \<Rightarrow> exception option \<times> 'c \<times> 'i item_model \<times> string list" where
  "setModelData patch currentIndex model index ctrl =
     (let package = family (model index);
          options = versions (model index);
          default = default_version (model index)
      in case py_index options currentIndex of
           Inl e \<Rightarrow> (Some e, ctrl, model, [])
         | Inr version \<Rightarrow>
             if version = [] \<or> version = default then (None, ctrl, model, [])
             else (None, patch (package @ ''=='' @ version) ctrl, model,
                   [package @ ''=='' @ version]))"

section \<open>\<^verbatim>\<open>tests/util.py\<close>: waiting for a signal\<close>

text \<open>
  The slot that \<^verbatim>\<open>wait\<close> connects to a signal of one argument: does this emission quit
  the loop and clear the timeout flag?  \<^verbatim>\<open>if on_value:\<close> picks the comparing slot for a
  true \<^verbatim>\<open>on_value\<close> and the unconditional one otherwise.
\<close>

definition trigger :: "pyval \<Rightarrow> pyval \<Rightarrow> bool" where
  "trigger on_value v = (if truthy on_value then py_eq v on_value else True)"

text \<open>
  \<^verbatim>\<open>loop.exec_()\<close>: the event loop delivers, in order, the values the signal emits before
  the single-shot timer fires, then the timer's \<^verbatim>\<open>loop.quit\<close>.  The result is
  \<^verbatim>\<open>state["timeout"]\<close> when the loop returns.
\<close>

fun exec_loop :: "pyval \<Rightarrow> pyval list \<Rightarrow> bool \<Rightarrow> bool" where
  "exec_loop on_value [] timeout_flag = timeout_flag"
| "exec_loop on_value (v # vs) timeout_flag =
     (if trigger on_value v then False else exec_loop on_value vs timeout_flag)"

definition wait :: "pyval \<Rightarrow> pyval list \<Rightarrow> exception + unit" where
  "wait on_value emitted_before_timeout =
     (if exec_loop on_value emitted_before_timeout True
      then Inl (PlainException ''Signal waiting timeout.'')
      else Inr ())"

text \<open>
  What the specification says of \<^verbatim>\<open>wait\<close>, in its words: it returns when the signal
  fires before the timeout, with a value equal to \<^verbatim>\<open>on_value\<close> whenever
  \<^verbatim>\<open>on_value\<close> is given (is not \<open>None\<close>), and raises otherwise.
\<close>

definition wait_as_specified :: "pyval \<Rightarrow> pyval list \<Rightarrow> exception + unit" where
  "wait_as_specified on_value emitted_before_timeout =
     (if list_ex (\<lambda>v. on_value = PNone \<or> py_eq v on_value) emitted_before_timeout
      then Inr ()
      else Inl (PlainException ''Signal waiting timeout.''))"

section \<open>\<^verbatim>\<open>cli.py\<close>: the command line bootstrap\<close>

subsection \<open>Loading the user's configuration file\<close>

text \<open>
  The surroundings of \<^verbatim>\<open>_load_userconfig\<close>: the environment variable, the expanded
  \<^verbatim>\<open>~/allzparkconfig.py\<close>, and what opening, compiling and executing a file gives: the
  module dictionary, or the exception raised on the way.
\<close>

record userconfig_world =
  env_ALLZPARK_CONFIG_FILE :: "string option"
  home_allzparkconfig :: string
  exec_file :: "string \<Rightarrow> exception + (string \<rightharpoonup> pyval)"

text \<open>
  The file that is read: \<^verbatim>\<open>fname or os.getenv("ALLZPARK_CONFIG_FILE",
  os.path.expanduser("~/allzparkconfig.py"))\<close>.
\<close>

definition userconfig_fname :: "userconfig_world \<Rightarrow> string option \<Rightarrow> string" where
  "userconfig_fname w fname_arg =
     (let fallback = (case env_ALLZPARK_CONFIG_FILE w of
                        Some v \<Rightarrow> v | None \<Rightarrow> home_allzparkconfig w)
      in case fname_arg of
           Some f \<Rightarrow> if f \<noteq> [] then f else fallback
         | None \<Rightarrow> fallback)"

text \<open>
  \<^verbatim>\<open>_load_userconfig(fname)\<close> on the attributes of the \<^verbatim>\<open>allzparkconfig\<close> module.
  \<^verbatim>\<open>IOError\<close> is raised again as it is; any other \<^verbatim>\<open>Exception\<close> becomes a
  \<^verbatim>\<open>UserError\<close>; an attribute whose name does not start with two underscores takes the
  value the file gave it, if it gave one.
\<close>

definition load_userconfig ::
  "userconfig_world \<Rightarrow> (string \<rightharpoonup> pyval) \<Rightarrow> string option
     \<Rightarrow> exception + string \<times> (string \<rightharpoonup> pyval)" where
  "load_userconfig w allzparkconfig fname_arg =
     (let fname = userconfig_fname w fname_arg
      in case exec_file w fname of
           Inl e \<Rightarrow>
             if e = IOError then Inl IOError
             else if is_Exception e
               then Inl (UserError ''Better double-check your user config'')
             else Inl e
         | Inr module \<Rightarrow>
             Inr (fname,
                  (\<lambda>key. case allzparkconfig key of
                            None \<Rightarrow> None
                          | Some old \<Rightarrow>
                              if take 2 key = ''__'' then Some old
                              else (case module key of
                                      None \<Rightarrow> Some old
                                    | Some v \<Rightarrow> Some v))))"

text \<open>
  The context manager \<^verbatim>\<open>timings\<close>.  Its \<^verbatim>\<open>message["success"]\<close> starts as one of
  two texts, and the body may replace it.
\<close>

definition nl :: string where
  "nl = [CHR 0x0A]"

definition initial_success :: "bool \<Rightarrow> string" where
  "initial_success timing = (if timing then ''ok - {:.2f}'' @ nl else ''ok'' @ nl)"

text \<open>
  \<^verbatim>\<open>timings\<close> around a body.  An \<^verbatim>\<open>Exception\<close> of the body is reported and answered
  with \<^verbatim>\<open>exit(1)\<close>; any other exit of the body goes through.  When the body returns,
  the \<^verbatim>\<open>else\<close> branch formats \<^verbatim>\<open>message["success"]\<close> (as the body left it, the
  argument \<open>success\<close>) with the elapsed time and prints it; that runs outside the
  \<^verbatim>\<open>except\<close> clause, so what \<^verbatim>\<open>str.format\<close> raises leaves the block as it is.
  \<^verbatim>\<open>str.format\<close> applied to the elapsed time is the parameter \<open>format_elapsed\<close>.
  The text printed is not modelled.
\<close>

definition timings ::
  "(string \<Rightarrow> exception + string) \<Rightarrow> string \<Rightarrow> exception + 'a \<Rightarrow> exception + 'a" where
  "timings format_elapsed success body =
     (case body of
        Inl e \<Rightarrow> if is_Exception e then Inl (SystemExit 1) else Inl e
      | Inr x \<Rightarrow>
          (case format_elapsed success of
             Inl e \<Rightarrow> Inl e
           | Inr line \<Rightarrow> Inr x))"

subsection \<open>The native environment\<close>

record rez_config =
  inherit_parent_environment :: "bool option"
  rez_tools_visibility :: string
  packages_path :: "string list"
  local_packages_path :: string
  release_packages_path :: string





subsection \<open>The preferences\<close>

text \<open>
  The values that \<^verbatim>\<open>main\<close> reads while it fills the settings:
  \<^verbatim>\<open>version_info_strs\<close> is \<^verbatim>\<open>map(str, sys.version_info)\<close>, \<^verbatim>\<open>rez_location_dir\<close> is
  \<^verbatim>\<open>os.path.dirname(_rez_location)\<close>, \<^verbatim>\<open>settings_file_name\<close> is
  \<^verbatim>\<open>storage.fileName()\<close>, the two \<^verbatim>\<open>startup_\<close> fields are attributes of
  \<^verbatim>\<open>allzparkconfig\<close>.
\<close>

record sysinfo =
  env_REZ_MEMCACHED_URI :: "string option"
  sys_executable :: string
  version_info_strs :: "string list"
  qt_binding_version :: string
  qt_binding :: string
  qt_version :: string
  rez_location_dir :: string
  rez_version :: string
  env_REZ_CONFIG_FILE :: "string option"
  settings_file_name :: string
  startup_profile :: pyval
  startup_application :: pyval
  clean :: bool
  demo :: bool

text \<open>\<^verbatim>\<open>os.getenv(name, "None")\<close>.\<close>

definition getenv_or_None :: "string option \<Rightarrow> string" where
  "getenv_or_None v = (case v of Some s \<Rightarrow> s | None \<Rightarrow> ''None'')"

definition defaults :: "char \<Rightarrow> sysinfo \<Rightarrow> rez_config \<Rightarrow> (string \<times> pyval) list" where
  "defaults pathsep i config =
     [(''memcachedURI'', PStr (getenv_or_None (env_REZ_MEMCACHED_URI i))),
      (''pythonExe'', PStr (sys_executable i)),
      (''pythonVersion'', PStr (join ''.'' (version_info_strs i))),
      (''qtVersion'', PStr (qt_binding_version i)),
      (''qtBinding'', PStr (qt_binding i)),
      (''qtBindingVersion'', PStr (qt_version i)),
      (''rezLocation'', PStr (rez_location_dir i)),
      (''rezVersion'', PStr (rez_version i)),
      (''rezConfigFile'', PStr (getenv_or_None (env_REZ_CONFIG_FILE i))),
      (''rezPackagesPath'', PList (map PStr (packages_path config))),
      (''rezLocalPath'', PList (map PStr (split pathsep (local_packages_path config)))),
      (''rezReleasePath'', PList (map PStr (split pathsep (release_packages_path config)))),
      (''settingsPath'', PStr (settings_file_name i))]"

text \<open>The calls of \<^verbatim>\<open>storage.setValue\<close> that \<^verbatim>\<open>main\<close> makes, in order.\<close>

definition preference_writes :: "char \<Rightarrow> sysinfo \<Rightarrow> rez_config \<Rightarrow> (string \<times> pyval) list" where
  "preference_writes pathsep i config =
     defaults pathsep i config
     @ (if truthy (startup_profile i) then [(''startupProfile'', startup_profile i)] else [])
     @ (if truthy (startup_application i) then [(''startupApp'', startup_application i)] else [])
     @ (if demo i then [(''useDevelopmentPackages'', PBool True)] else [])"

text \<open>The settings store after the block: cleared first under \<^verbatim>\<open>--clean\<close>.\<close>

definition setValue :: "string \<Rightarrow> pyval \<Rightarrow> (string \<times> pyval) list \<Rightarrow> (string \<times> pyval) list" where
  "setValue key v storage = AList.update key v storage"

definition load_preferences ::
  "char \<Rightarrow> sysinfo \<Rightarrow> rez_config \<Rightarrow> (string \<times> pyval) list \<Rightarrow> (string \<times> pyval) list" where
  "load_preferences pathsep i config storage =
     fold (\<lambda>(key, v). setValue key v) (preference_writes pathsep i config)
       (if clean i then [] else storage)"

text \<open>A value that is a string, a number or a boolean; a list of strings.\<close>

fun is_primitive :: "pyval \<Rightarrow> bool" where
  "is_primitive (PStr s) = True"
| "is_primitive (PInt n) = True"
| "is_primitive (PBool b) = True"
| "is_primitive v = False"

fun is_str_list :: "pyval \<Rightarrow> bool" where
  "is_str_list (PList xs) = list_all is_str xs"
| "is_str_list v = False"

text \<open>
  How \<^verbatim>\<open>main\<close> writes a setting: three keys hold lists of strings, the two startup keys
  hold what \<^verbatim>\<open>allzparkconfig\<close> has, the demo flag is \<open>True\<close>, and the other ten keys
  hold strings.  No other key is written.
\<close>

definition list_keys :: "string list" where
  "list_keys = [''rezPackagesPath'', ''rezLocalPath'', ''rezReleasePath'']"

definition string_keys :: "string list" where
  "string_keys =
     [''memcachedURI'', ''pythonExe'', ''pythonVersion'', ''qtVersion'', ''qtBinding'',
      ''qtBindingVersion'', ''rezLocation'', ''rezVersion'', ''rezConfigFile'',
      ''settingsPath'']"

definition written_as_designed :: "sysinfo \<Rightarrow> string \<times> pyval \<Rightarrow> bool" where
  "written_as_designed i = (\<lambda>(key, v).
     (key \<in> set list_keys \<and> is_str_list v)
     \<or> (key = ''startupProfile'' \<and> v = startup_profile i)
     \<or> (key = ''startupApp'' \<and> v = startup_application i)
     \<or> (key = ''useDevelopmentPackages'' \<and> v = PBool True)
     \<or> (key \<in> set string_keys \<and> is_str v))"

subsection \<open>\<^verbatim>\<open>main\<close>\<close>

text \<open>
  The steps of \<^verbatim>\<open>main\<close>, in the words of its progress messages, and \<open>Raised\<close> for the
  exception that ends a run.
\<close>

datatype step =
    ParseArgs
  | RedirectStdio
  | TellVersion
  | Banner
  | ConfigureLogging
  | LoadDemo
  | LoadRez
  | PatchRezBinPath
  | ResolveNativeEnviron
  | LoadQt
  | LoadQtWidgets
  | ProvideVendorModules
  | LoadAllzpark
  | PatchAllzparkconfig
  | LoadUserconfig
  | BackwardsCompatibility
  | DieOnCtrlC
  | LoadPreferences
  | ImportLocalz
  | CreateQApplication
  | CreateController
  | StdioToController
  | InstallExcepthook
  | LoadThemes
  | CreateWindow
  | ShowWindow
  | ScheduleInit
  | TaskbarCompat
  | ExecEventLoop
  | Raised exception

text \<open>
  One run of the program: the options and the platform, the demo package if it can be
  imported (its \<^verbatim>\<open>rezconfig\<close> and \<^verbatim>\<open>allzparkconfig\<close> paths), the user's configuration
  and, for every other step, whether the code it calls returns or raises; then
  \<^verbatim>\<open>str.format\<close> on the elapsed time, and the texts that the blocks put into their
  success messages: the versions of rez, Qt and allzpark, what \<^verbatim>\<open>_patch_rez_bin_path\<close>
  returned, and whether \<^verbatim>\<open>_resolve_native_environ\<close> returned an environment.
\<close>

record boot =
  has_stdout :: bool
  opt_version :: bool
  opt_demo :: bool
  opt_config_file :: "string option"
  os_name_nt :: bool
  allzparkdemo :: "exception + string \<times> string"
  config_world :: userconfig_world
  allzparkconfig_attrs :: "string \<rightharpoonup> pyval"
  outcome :: "step \<Rightarrow> exception + unit"
  format_elapsed :: "string \<Rightarrow> exception + string"
  rez_version_text :: string
  rez_bin_path_text :: string
  native_environ_solved :: bool
  qt_binding_text :: string
  qt_version_text :: string
  allzpark_version :: string

text \<open>Statements in sequence: the first one that raises ends the run.\<close>

fun run :: "(step \<times> (exception + unit)) list \<Rightarrow> step list" where
  "run [] = []"
| "run ((s, Inr u) # rest) = s # run rest"
| "run ((s, Inl e) # rest) = [s, Raised e]"

text \<open>\<^verbatim>\<open>opts.config_file\<close> when the configuration is loaded: the demo replaces it.\<close>

definition config_file :: "boot \<Rightarrow> string option" where
  "config_file w =
     (if opt_demo w
      then (case allzparkdemo w of
              Inr (rezconfig, allzparkconfig) \<Rightarrow> Some allzparkconfig
            | Inl e \<Rightarrow> opt_config_file w)
      else opt_config_file w)"

definition discard :: "exception + 'a \<Rightarrow> exception + unit" where
  "discard r = (case r of Inl e \<Rightarrow> Inl e | Inr x \<Rightarrow> Inr ())"

text \<open>
  \<^verbatim>\<open>message["success"]\<close> at the end of the block that loads the user's configuration:
  \<^verbatim>\<open>"ok {:.2f} (%s)\n" % result\<close> when the file was loaded, the initial text when the
  \<^verbatim>\<open>IOError\<close> was passed over.
\<close>

definition userconfig_success :: "boot \<Rightarrow> string" where
  "userconfig_success w =
     (case load_userconfig (config_world w) (allzparkconfig_attrs w) (config_file w) of
        Inr (fname, attrs) \<Rightarrow> ''ok {:.2f} ('' @ fname @ '')'' @ nl
      | Inl e \<Rightarrow> initial_success True)"

text \<open>
  The body of \<^verbatim>\<open>main\<close> as a list of steps with their results.  \<^verbatim>\<open>--version\<close> prints
  and exits; a missing rez exits inside the block; a missing Qt binding only changes the
  failure message and the next import raises; an \<^verbatim>\<open>IOError\<close> of the user's
  configuration is passed over.  Every \<^verbatim>\<open>timings\<close> block is given the success message
  that its body leaves.
\<close>

definition main_script :: "boot \<Rightarrow> (step \<times> (exception + unit)) list" where
  "main_script w =
     [(ParseArgs, outcome w ParseArgs)]
     @ (if \<not> has_stdout w then [(RedirectStdio, outcome w RedirectStdio)] else [])
     @ (if opt_version w then [(TellVersion, Inl (SystemExit 0))] else [])
     @ [(Banner, Inr ()),
        (ConfigureLogging, Inr ())]
     @ (if opt_demo w
        then [(LoadDemo,
                timings (format_elapsed w) (initial_success True) (discard (allzparkdemo w)))]
        else [])
     @ [(LoadRez,
          timings (format_elapsed w) (''('' @ rez_version_text w @ '') - ok {:.2f}'' @ nl)
            (case outcome w LoadRez of
               Inl e \<Rightarrow> if e = ImportError then Inl (SystemExit 1) else Inl e
             | Inr u \<Rightarrow> Inr u)),
        (PatchRezBinPath,
          timings (format_elapsed w) (''ok {:.2f} ('' @ rez_bin_path_text w @ '')'' @ nl)
            (outcome w PatchRezBinPath)),
        (ResolveNativeEnviron,
          timings (format_elapsed w)
            (''ok {:.2f} ('' @ (if native_environ_solved w then ''solved'' else ''skipped'')
               @ '')'' @ nl)
            (outcome w ResolveNativeEnviron)),
        (LoadQt,
          timings (format_elapsed w)
            (if outcome w LoadQt = Inl ImportError then initial_success True
             else ''('' @ qt_binding_text w @ '' - '' @ qt_version_text w @ '') - ok {:.2f}''
                    @ nl)
            (case outcome w LoadQt of
               Inl e \<Rightarrow> if e = ImportError then outcome w LoadQtWidgets else Inl e
             | Inr u \<Rightarrow> outcome w LoadQtWidgets)),
        (ProvideVendorModules,
          if outcome w LoadQt = Inl ImportError then Inl (PlainException ''NameError'')
          else Inr ()),
        (LoadAllzpark,
          timings (format_elapsed w) (''('' @ allzpark_version w @ '') - ok {:.2f}'' @ nl)
            (outcome w LoadAllzpark)),
        (PatchAllzparkconfig, Inr ()),
        (LoadUserconfig,
          timings (format_elapsed w) (userconfig_success w)
            (case load_userconfig (config_world w) (allzparkconfig_attrs w)
                    (config_file w) of
               Inl e \<Rightarrow> if e = IOError then Inr () else Inl e
             | Inr loaded \<Rightarrow> Inr ())),
        (BackwardsCompatibility, Inr ()),
        (DieOnCtrlC, Inr ()),
        (LoadPreferences,
          timings (format_elapsed w) (initial_success True) (outcome w LoadPreferences)),
        (ImportLocalz, Inr ()),
        (CreateQApplication, outcome w CreateQApplication),
        (CreateController, outcome w CreateController)]
     @ (if \<not> has_stdout w then [(StdioToController, outcome w StdioToController)] else [])
     @ [(InstallExcepthook, Inr ()),
        (LoadThemes,
          timings (format_elapsed w) (initial_success True) (outcome w LoadThemes)),
        (CreateWindow, outcome w CreateWindow),
        (ShowWindow, outcome w ShowWindow),
        (ScheduleInit, Inr ())]
     @ (if os_name_nt w then [(TaskbarCompat, outcome w TaskbarCompat)] else [])
     @ [(ExecEventLoop, outcome w ExecEventLoop)]"

definition main :: "boot \<Rightarrow> step list" where
  "main w = run (main_script w)"

text \<open>In a run, no \<open>b\<close> happens before the first \<open>a\<close>.\<close>

definition precedes :: "'a \<Rightarrow> 'a \<Rightarrow> 'a list \<Rightarrow> bool" where
  "precedes a b tr = (b \<notin> set (takeWhile (\<lambda>x. x \<noteq> a) tr))"

section \<open>Concrete inputs\<close>

text \<open>A repository with two locations, used to evaluate the queries.\<close>

definition demo_find :: "(unit, nat) finder" where
  "demo_find name vrange paths =
     (if name \<noteq> ''maya'' then Inr []
      else if paths = Some [''/local''] then
        Inr [\<lparr>pkg_name = ''maya'', pkg_version = 2030\<rparr>]
      else
        Inr [\<lparr>pkg_name = ''maya'', pkg_version = 2019\<rparr>,
             \<lparr>pkg_name = ''maya'', pkg_version = 2020\<rparr>,
             \<lparr>pkg_name = ''maya'', pkg_version = 2018\<rparr>])"

text \<open>A package query against a repository that cannot be read.\<close>

definition failing_find :: "(unit, nat) finder" where
  "failing_find name vrange paths = Inl RezError"

text \<open>A model whose every row is the package family maya, with default version 2018.\<close>

definition demo_model :: "nat item_model" where
  "demo_model index =
     \<lparr>family = ''maya'', versions = [''2018'', ''2019''], default_version = ''2018''\<rparr>"

text \<open>A controller that keeps the requests it was patched with, newest first.\<close>

definition demo_patch :: "string \<Rightarrow> string list \<Rightarrow> string list" where
  "demo_patch request ctrl = request # ctrl"







definition demo_config :: rez_config where
  "demo_config =
     \<lparr>inherit_parent_environment = None,
      rez_tools_visibility = ''append'',
      packages_path = [''/home/u/packages'', ''/studio/packages''],
      local_packages_path = ''/home/u/packages'',
      release_packages_path = ''/studio/packages:/studio/ext''\<rparr>"

definition demo_sysinfo :: sysinfo where
  "demo_sysinfo =
     \<lparr>env_REZ_MEMCACHED_URI = None,
      sys_executable = ''/usr/bin/python'',
      version_info_strs = [''3'', ''7'', ''4'', ''final'', ''0''],
      qt_binding_version = ''5.15.2'',
      qt_binding = ''PySide2'',
      qt_version = ''5.15.2'',
      rez_location_dir = ''/opt/rez/lib/rez'',
      rez_version = ''2.60.1'',
      env_REZ_CONFIG_FILE = None,
      settings_file_name = ''/home/u/.config/Allzpark/preferences.ini'',
      startup_profile = PStr ''alita'',
      startup_application = PStr [],
      clean = False,
      demo = True\<rparr>"

text \<open>
  A configuration file that cannot be compiled, one that calls \<^verbatim>\<open>exit(3)\<close>, one that
  sets a startup profile; any other file does not exist.
\<close>

definition demo_exec_file :: "string \<Rightarrow> exception + (string \<rightharpoonup> pyval)" where
  "demo_exec_file fname =
     (if fname = ''/cfg/broken.py'' then Inl SyntaxError
      else if fname = ''/cfg/exit.py'' then Inl (SystemExit 3)
      else if fname = ''/cfg/good.py''
        then Inr [''__file__'' \<mapsto> PStr fname, ''startup_profile'' \<mapsto> PStr ''alita'']
      else Inl IOError)"

definition demo_userconfig_world :: userconfig_world where
  "demo_userconfig_world =
     \<lparr>env_ALLZPARK_CONFIG_FILE = None,
      home_allzparkconfig = ''/home/u/allzparkconfig.py'',
      exec_file = demo_exec_file\<rparr>"

definition demo_allzparkconfig :: "string \<rightharpoonup> pyval" where
  "demo_allzparkconfig = [''startup_profile'' \<mapsto> PStr [], ''startup_application'' \<mapsto> PStr []]"

text \<open>
  A stand-in for \<^verbatim>\<open>str.format\<close> with an elapsed time of 0.05 seconds: it fills the
  field \<^verbatim>\<open>{:.2f}\<close> and takes any other brace for a field that it cannot fill.
\<close>

fun demo_format_elapsed :: "string \<Rightarrow> exception + string" where
  "demo_format_elapsed [] = Inr []"
| "demo_format_elapsed (c # cs) =
     (if take 6 (c # cs) = ''{:.2f}''
      then (case demo_format_elapsed (drop 5 cs) of
              Inl e \<Rightarrow> Inl e
            | Inr line \<Rightarrow> Inr (''0.05'' @ line))
      else if c = CHR ''{'' \<or> c = CHR ''}'' then Inl KeyError
      else (case demo_format_elapsed cs of
              Inl e \<Rightarrow> Inl e
            | Inr line \<Rightarrow> Inr (c # line)))"

text \<open>A run on a console, without flags, in which every step returns.\<close>

definition demo_boot :: boot where
  "demo_boot =
     \<lparr>has_stdout = True,
      opt_version = False,
      opt_demo = False,
      opt_config_file = Some ''/cfg/good.py'',
      os_name_nt = False,
      allzparkdemo = Inl ImportError,
      config_world = demo_userconfig_world,
      allzparkconfig_attrs = demo_allzparkconfig,
      outcome = (\<lambda>s. Inr ()),
      format_elapsed = demo_format_elapsed,
      rez_version_text = ''2.60.1'',
      rez_bin_path_text = ''not in a resolved context.'',
      native_environ_solved = False,
      qt_binding_text = ''PySide2'',
      qt_version_text = ''5.15.2'',
      allzpark_version = ''1.3.0''\<rparr>"

section \<open>Properties\<close>

subsection \<open>\<^verbatim>\<open>find_latest\<close> ignores \<^verbatim>\<open>paths\<close>\<close>

text \<open>
  C2.  For every package query, family name and version range, and any two values of the
  \<^verbatim>\<open>paths\<close> argument (\<open>None\<close> included), \<^verbatim>\<open>find_latest\<close> returns the same
  package or raises the same error: \<^verbatim>\<open>paths\<close> is never handed to the query.
\<close>

theorem find_latest_paths_independent:
  "find_latest rez_find name vrange paths1 = find_latest rez_find name vrange paths2"
  by (simp add: find_latest_def)

text \<open>
  On the demonstration repository the query itself answers differently for the two
  locations (and \<^verbatim>\<open>find_one\<close>, which forwards \<^verbatim>\<open>paths\<close>, follows it), while
  \<^verbatim>\<open>find_latest\<close> gives version 2020 for both.
\<close>

theorem find_latest_paths_independent_witness:
  "find_latest demo_find ''maya'' None (Some [''/local''])
     = find_latest demo_find ''maya'' None None
   \<and> find_latest demo_find ''maya'' None None
     = Inr \<lparr>pkg_name = ''maya'', pkg_version = 2020\<rparr>
   \<and> find_one demo_find ''maya'' None (Some [''/local''])
     \<noteq> find_one demo_find ''maya'' None None"
  using find_latest_paths_independent [of demo_find "''maya''" None "Some [''/local'']" None]
  by (simp add: find_latest_def find_one_def demo_find_def last_item_def)

subsection \<open>\<^verbatim>\<open>pixmap\<close> loads the file that \<^verbatim>\<open>find\<close> names\<close>

text \<open>
  C8.  For every argument list, cache and \<^verbatim>\<open>os.path\<close>, the only file name that
  \<^verbatim>\<open>pixmap(*paths)\<close> hands to the \<^verbatim>\<open>QPixmap\<close> constructor is \<^verbatim>\<open>find(*paths)\<close>: it
  does so exactly when the arguments are not yet cached, and the pixmap returned and cached
  is then the one made from that name.  Whether the last component has an extension plays no
  part, so the \<^verbatim>\<open>".png"\<close> default never changes which file is loaded.  (With no
  arguments \<^verbatim>\<open>paths[-1]\<close> raises and nothing is loaded.)
\<close>

theorem pixmap_loads_find_resources:
  "snd (snd (pixmap os dirname cache paths))
     = (if paths \<noteq> [] \<and> cache paths = None then [find_resources os dirname paths] else [])
   \<and> (paths \<noteq> [] \<longrightarrow> cache paths = None \<longrightarrow>
        fst (pixmap os dirname cache paths) = Inr (QPixmap (find_resources os dirname paths))
        \<and> fst (snd (pixmap os dirname cache paths))
            = cache(paths \<mapsto> QPixmap (find_resources os dirname paths)))"
  by (auto simp: pixmap_def last_item_def Let_def split: list.splits prod.splits option.splits)

lemma demo_find_resources:
  "find_resources posix ''/opt/allzpark'' [''icons'', ''Default_Profile'']
     = ''/opt/allzpark/resources/icons/Default_Profile''"
  by code_simp

lemma demo_splitext: "posix_splitext ''Default_Profile'' = (''Default_Profile'', [])"
  by code_simp

text \<open>
  An icon named without extension, on POSIX, with an empty cache: the file loaded is
  \<^verbatim>\<open>.../icons/Default_Profile\<close>, not \<^verbatim>\<open>.../icons/Default_Profile.png\<close>.
\<close>

theorem pixmap_loads_find_resources_witness:
  "splitext posix (last [''icons'', ''Default_Profile'']) = (''Default_Profile'', [])
   \<and> snd (snd (pixmap posix ''/opt/allzpark'' Map.empty [''icons'', ''Default_Profile'']))
       = [''/opt/allzpark/resources/icons/Default_Profile'']
   \<and> fst (pixmap posix ''/opt/allzpark'' Map.empty [''icons'', ''Default_Profile''])
       = Inr (QPixmap ''/opt/allzpark/resources/icons/Default_Profile'')"
  using pixmap_loads_find_resources
          [of posix "''/opt/allzpark''" Map.empty "[''icons'', ''Default_Profile'']"]
        demo_find_resources demo_splitext
  by (simp add: posix_def)

subsection \<open>\<^verbatim>\<open>setModelData\<close> patches only for a changed version\<close>

text \<open>
  C5.  For every editor state and model index, \<^verbatim>\<open>Package.setModelData\<close> leaves the model
  as it is; it calls the controller's \<^verbatim>\<open>patch\<close> only when the version selected in the
  editor is not empty and differs from the model's default version (once, with
  \<^verbatim>\<open>family==version\<close>); when the selected version is the default or empty, there is no
  call and the controller is unchanged.
\<close>

theorem setModelData_patches_only_a_changed_version:
  assumes "setModelData patch currentIndex model index ctrl = (err, ctrl', model', calls)"
  shows "model' = model
    \<and> (calls \<noteq> [] \<longrightarrow>
         (\<exists>version. py_index (versions (model index)) currentIndex = Inr version
            \<and> version \<noteq> [] \<and> version \<noteq> default_version (model index)
            \<and> calls = [family (model index) @ ''=='' @ version]
            \<and> ctrl' = patch (family (model index) @ ''=='' @ version) ctrl))
    \<and> (calls = [] \<longrightarrow> ctrl' = ctrl)
    \<and> (\<forall>version. py_index (versions (model index)) currentIndex = Inr version
           \<longrightarrow> version = [] \<or> version = default_version (model index)
           \<longrightarrow> calls = [] \<and> ctrl' = ctrl \<and> err = None)"
proof (cases "py_index (versions (model index)) currentIndex")
  case (Inl e)
  with assms show ?thesis by (simp add: setModelData_def)
next
  case (Inr version)
  show ?thesis
  proof (cases "version = [] \<or> version = default_version (model index)")
    case True
    with assms Inr show ?thesis by (auto simp: setModelData_def Let_def)
  next
    case False
    with assms Inr show ?thesis by (auto simp: setModelData_def Let_def)
  qed
qed

text \<open>Selecting 2019 over the default 2018 patches once; selecting 2018 does nothing.\<close>

theorem setModelData_patches_only_a_changed_version_witness:
  "setModelData demo_patch 1 demo_model 0 []
     = (None, [''maya==2019''], demo_model, [''maya==2019''])
   \<and> setModelData demo_patch 0 demo_model 0 [] = (None, [], demo_model, [])
   \<and> py_index (versions (demo_model 0)) 1 = Inr ''2019''
   \<and> default_version (demo_model 0) = ''2018''"
proof -
  have a: "setModelData demo_patch 1 demo_model 0 []
             = (None, [''maya==2019''], demo_model, [''maya==2019''])"
    by (simp add: setModelData_def demo_model_def demo_patch_def py_index_def)
  have b: "setModelData demo_patch 0 demo_model 0 [] = (None, [], demo_model, [])"
    by (simp add: setModelData_def demo_model_def demo_patch_def py_index_def)
  show ?thesis
    using a b setModelData_patches_only_a_changed_version [OF a]
      setModelData_patches_only_a_changed_version [OF b]
    by (simp add: demo_model_def py_index_def)
qed

subsection \<open>\<^verbatim>\<open>wait\<close>: which emissions end the waiting\<close>

lemma exec_loop_True: "exec_loop on_value vs True = (\<not> list_ex (trigger on_value) vs)"
  by (induction vs) auto

lemma wait_returns_iff: "(wait on_value vs = Inr ()) = list_ex (trigger on_value) vs"
  by (simp add: wait_def exec_loop_True)

lemma wait_raises_iff:
  "(wait on_value vs = Inl (PlainException ''Signal waiting timeout.''))
     = (\<not> list_ex (trigger on_value) vs)"
  by (simp add: wait_def exec_loop_True)

text \<open>
  With a true \<^verbatim>\<open>on_value\<close>, \<^verbatim>\<open>wait\<close> returns exactly when an equal value is emitted
  before the timeout; without \<^verbatim>\<open>on_value\<close>, exactly when anything is emitted.  In both
  cases it does what is specified.
\<close>

lemma wait_true_on_value:
  "truthy on_value \<Longrightarrow> (wait on_value vs = Inr ()) = (\<exists>v \<in> set vs. py_eq v on_value)"
  by (simp add: wait_returns_iff trigger_def list_ex_iff)

lemma wait_no_on_value: "(wait PNone vs = Inr ()) = (vs \<noteq> [])"
  by (cases vs) (simp_all add: wait_returns_iff trigger_def)

lemma wait_as_specified_when_true_or_None:
  assumes "truthy on_value \<or> on_value = PNone"
  shows "wait on_value vs = wait_as_specified on_value vs"
proof (cases "on_value = PNone")
  case True
  then show ?thesis
    by (cases vs) (simp_all add: wait_def wait_as_specified_def exec_loop_True trigger_def)
next
  case False
  with assms have t: "truthy on_value" by simp
  have "list_ex (trigger on_value) vs = list_ex (\<lambda>v. on_value = PNone \<or> py_eq v on_value) vs"
    using t False by (simp add: trigger_def list_ex_iff)
  then show ?thesis
    by (simp add: wait_def wait_as_specified_def exec_loop_True)
qed

text \<open>
  C4.  \<^verbatim>\<open>wait(signal, on_value, timeout)\<close> is to return when the signal fires before the
  timeout with a value equal to a given \<^verbatim>\<open>on_value\<close>, and to raise if and only if there
  is no such firing.  For \<^verbatim>\<open>on_value=False\<close> it does not: the signal emits only
  \<open>True\<close>, which is not equal to \<open>False\<close>, and \<^verbatim>\<open>wait\<close> returns where an exception
  is specified.
\<close>

theorem wait_false_on_value_returns:
  "wait (PBool False) [PBool True] = Inr ()
   \<and> \<not> py_eq (PBool True) (PBool False)
   \<and> wait_as_specified (PBool False) [PBool True]
       = Inl (PlainException ''Signal waiting timeout.'')"
  by (simp add: wait_def wait_as_specified_def trigger_def)

subsection \<open>\<^verbatim>\<open>_resolve_native_environ\<close> and the loaded context\<close>




subsection \<open>The keys of the palettes\<close>

lemma dict_update_keys_distinct:
  "distinct (map fst d) \<Longrightarrow> distinct (map fst (dict_update d other))"
  unfolding dict_update_def
  by (induction other arbitrary: d) (auto simp: distinct_update)

lemma dict_update_keys:
  "fst ` set (dict_update d other) = fst ` set d \<union> fst ` set other"
  unfolding dict_update_def
proof (induction other arbitrary: d)
  case Nil
  show ?case by simp
next
  case (Cons kv other)
  obtain k v where kv: "kv = (k, v)" by (cases kv)
  have "fst ` set (AList.update k v d) = {k} \<union> fst ` set d"
    by (rule dom_update)
  with Cons[of "AList.update k v d"] kv show ?case by auto
qed

lemma builtin_keys: "map fst builtin_palettes = [PStr ''dark'', PStr ''light'']"
  by (simp add: builtin_palettes_def)

text \<open>
  C9, as the code has it.  For every value of \<^verbatim>\<open>allzparkconfig.palettes\<close> (\<open>None\<close> or
  any mapping) the keys of the dictionary that \<^verbatim>\<open>load_palettes\<close> returns are unique, and
  they are \<^verbatim>\<open>"dark"\<close>, \<^verbatim>\<open>"light"\<close> and the keys of the configured mapping; they are
  all strings whenever the keys of the configured mapping are.
\<close>

theorem load_palettes_keys:
  "distinct (map fst (load_palettes cfg))
   \<and> set (map fst (load_palettes cfg))
       = {PStr ''dark'', PStr ''light''}
         \<union> (case cfg of None \<Rightarrow> {} | Some other \<Rightarrow> set (map fst other))
   \<and> ((case cfg of None \<Rightarrow> True | Some other \<Rightarrow> list_all is_str (map fst other))
        \<longrightarrow> list_all is_str (map fst (load_palettes cfg)))"
proof -
  have d0: "distinct (map fst builtin_palettes)" by (simp add: builtin_keys)
  have s0: "fst ` set builtin_palettes = {PStr ''dark'', PStr ''light''}"
    using builtin_keys by (metis list.set_map list.simps(15) empty_set)
  have 1: "distinct (map fst (load_palettes cfg))"
    using d0 by (auto simp: load_palettes_def dict_update_keys_distinct split: option.splits)
  have 2: "set (map fst (load_palettes cfg))
       = {PStr ''dark'', PStr ''light''}
         \<union> (case cfg of None \<Rightarrow> {} | Some other \<Rightarrow> set (map fst other))"
  proof (cases cfg)
    case None
    then show ?thesis using s0 by (simp add: load_palettes_def)
  next
    case (Some other)
    then show ?thesis using s0
      by (cases "other = []") (simp_all add: load_palettes_def dict_update_keys)
  qed
  have 3: "list_all is_str (map fst (load_palettes cfg))"
    if "case cfg of None \<Rightarrow> True | Some other \<Rightarrow> list_all is_str (map fst other)"
  proof -
    have "\<forall>k \<in> set (map fst (load_palettes cfg)). is_str k"
      unfolding 2 using that by (auto simp: list_all_iff split: option.splits)
    then show ?thesis by (simp add: list_all_iff)
  qed
  from 1 2 3 show ?thesis by blast
qed

text \<open>A configuration that restyles \<^verbatim>\<open>"dark"\<close> and adds \<^verbatim>\<open>"neon"\<close>.\<close>

theorem load_palettes_keys_witness:
  "list_all is_str (map fst [(PStr ''dark'', [(''base'', ''#000000'')]), (PStr ''neon'', [])])
   \<and> map fst (load_palettes
                (Some [(PStr ''dark'', [(''base'', ''#000000'')]), (PStr ''neon'', [])]))
       = [PStr ''dark'', PStr ''light'', PStr ''neon'']
   \<and> list_all is_str
        (map fst (load_palettes
                    (Some [(PStr ''dark'', [(''base'', ''#000000'')]), (PStr ''neon'', [])])))"
  using load_palettes_keys
          [of "Some [(PStr ''dark'', [(''base'', ''#000000'')]), (PStr ''neon'', [])]"]
  by (simp add: load_palettes_def dict_update_def builtin_palettes_def)

text \<open>
  The claim for any mapping fails at \<^verbatim>\<open>palettes = {1: {}}\<close>: the key \<open>1\<close> of the
  result is not a string.
\<close>

theorem load_palettes_key_not_a_string:
  "map fst (load_palettes (Some [(PInt 1, [])])) = [PStr ''dark'', PStr ''light'', PInt 1]
   \<and> \<not> list_all is_str (map fst (load_palettes (Some [(PInt 1, [])])))"
  by (simp add: load_palettes_def dict_update_def builtin_palettes_def)

subsection \<open>The values written to the settings\<close>

lemma all_str_map_PStr: "list_all is_str (map PStr xs)"
  by (simp add: list_all_iff)

lemma defaults_values: "list_all (written_as_designed i) (defaults pathsep i config)"
  by (simp add: defaults_def list_keys_def string_keys_def all_str_map_PStr
        written_as_designed_def)

lemma startup_and_demo_values:
  "list_all (written_as_designed i)
     ((if truthy (startup_profile i) then [(''startupProfile'', startup_profile i)] else [])
     @ (if truthy (startup_application i) then [(''startupApp'', startup_application i)] else [])
     @ (if demo i then [(''useDevelopmentPackages'', PBool True)] else []))"
  by (simp add: written_as_designed_def)

lemma defaults_rezPackagesPath:
  "map_of (defaults pathsep i config) ''rezPackagesPath''
     = Some (PList (map PStr (packages_path config)))"
  by (simp add: defaults_def)

lemma defaults_rezLocalPath:
  "map_of (defaults pathsep i config) ''rezLocalPath''
     = Some (PList (map PStr (split pathsep (local_packages_path config))))"
  by (simp add: defaults_def)

lemma defaults_rezReleasePath:
  "map_of (defaults pathsep i config) ''rezReleasePath''
     = Some (PList (map PStr (split pathsep (release_packages_path config))))"
  by (simp add: defaults_def)

lemma defaults_no_startupProfile: "map_of (defaults pathsep i config) ''startupProfile'' = None"
  by (simp add: defaults_def)

lemma defaults_no_startupApp: "map_of (defaults pathsep i config) ''startupApp'' = None"
  by (simp add: defaults_def)

lemma defaults_no_useDevelopmentPackages:
  "map_of (defaults pathsep i config) ''useDevelopmentPackages'' = None"
  by (simp add: defaults_def)

lemma defaults_keys:
  "map fst (defaults pathsep i config)
     = [''memcachedURI'', ''pythonExe'', ''pythonVersion'', ''qtVersion'', ''qtBinding'',
        ''qtBindingVersion'', ''rezLocation'', ''rezVersion'', ''rezConfigFile'',
        ''rezPackagesPath'', ''rezLocalPath'', ''rezReleasePath'', ''settingsPath'']"
  by (simp add: defaults_def)

text \<open>
  C3, as the code has it.  Every entry that \<^verbatim>\<open>main\<close> writes to the settings has a
  string key, and no key is written twice.  Under \<^verbatim>\<open>rezPackagesPath\<close>,
  \<^verbatim>\<open>rezLocalPath\<close> and \<^verbatim>\<open>rezReleasePath\<close> it always writes a list of strings.
  \<^verbatim>\<open>startupProfile\<close> and \<^verbatim>\<open>startupApp\<close> are written exactly when the value configured
  in \<^verbatim>\<open>allzparkconfig\<close> is true, and then hold that value;
  \<^verbatim>\<open>useDevelopmentPackages\<close> is written exactly under \<^verbatim>\<open>--demo\<close>, and then holds
  \<open>True\<close>.  Every other entry has one of the ten remaining keys of the defaults and a
  string as its value.
\<close>

theorem preference_writes_values:
  "map_of (preference_writes pathsep i config) ''rezPackagesPath''
     = Some (PList (map PStr (packages_path config)))
   \<and> map_of (preference_writes pathsep i config) ''rezLocalPath''
     = Some (PList (map PStr (split pathsep (local_packages_path config))))
   \<and> map_of (preference_writes pathsep i config) ''rezReleasePath''
     = Some (PList (map PStr (split pathsep (release_packages_path config))))
   \<and> map_of (preference_writes pathsep i config) ''startupProfile''
     = (if truthy (startup_profile i) then Some (startup_profile i) else None)
   \<and> map_of (preference_writes pathsep i config) ''startupApp''
     = (if truthy (startup_application i) then Some (startup_application i) else None)
   \<and> map_of (preference_writes pathsep i config) ''useDevelopmentPackages''
     = (if demo i then Some (PBool True) else None)
   \<and> list_all (written_as_designed i) (preference_writes pathsep i config)
   \<and> distinct (map fst (preference_writes pathsep i config))"
proof -
  have lists: "map_of (preference_writes pathsep i config) ''rezPackagesPath''
     = Some (PList (map PStr (packages_path config)))
   \<and> map_of (preference_writes pathsep i config) ''rezLocalPath''
     = Some (PList (map PStr (split pathsep (local_packages_path config))))
   \<and> map_of (preference_writes pathsep i config) ''rezReleasePath''
     = Some (PList (map PStr (split pathsep (release_packages_path config))))"
    by (simp only: preference_writes_def map_of_append map_add_def defaults_rezPackagesPath
          defaults_rezLocalPath defaults_rezReleasePath option.case simp_thms)
  have profile: "map_of (preference_writes pathsep i config) ''startupProfile''
     = (if truthy (startup_profile i) then Some (startup_profile i) else None)"
    by (simp add: preference_writes_def map_add_def defaults_no_startupProfile)
  have app: "map_of (preference_writes pathsep i config) ''startupApp''
     = (if truthy (startup_application i) then Some (startup_application i) else None)"
    by (simp add: preference_writes_def map_add_def defaults_no_startupApp)
  have dev: "map_of (preference_writes pathsep i config) ''useDevelopmentPackages''
     = (if demo i then Some (PBool True) else None)"
    by (simp add: preference_writes_def map_add_def defaults_no_useDevelopmentPackages)
  have designed: "list_all (written_as_designed i) (preference_writes pathsep i config)"
    unfolding preference_writes_def
    using defaults_values [of i pathsep config] startup_and_demo_values [of i]
    by (simp only: list_all_append)
  have keys: "distinct (map fst (preference_writes pathsep i config))"
    by (simp add: preference_writes_def defaults_keys)
  from lists profile app dev designed keys show ?thesis by blast
qed

text \<open>A demo run with a startup profile and no startup application.\<close>

theorem preference_writes_values_witness:
  "map_of (preference_writes CHR '':'' demo_sysinfo demo_config) ''rezReleasePath''
     = Some (PList [PStr ''/studio/packages'', PStr ''/studio/ext''])
   \<and> map_of (preference_writes CHR '':'' demo_sysinfo demo_config) ''startupProfile''
     = Some (PStr ''alita'')
   \<and> map_of (preference_writes CHR '':'' demo_sysinfo demo_config) ''startupApp'' = None
   \<and> map_of (preference_writes CHR '':'' demo_sysinfo demo_config) ''useDevelopmentPackages''
     = Some (PBool True)
   \<and> list_all (written_as_designed demo_sysinfo)
        (preference_writes CHR '':'' demo_sysinfo demo_config)
   \<and> map fst (preference_writes CHR '':'' demo_sysinfo demo_config)
       = [''memcachedURI'', ''pythonExe'', ''pythonVersion'', ''qtVersion'', ''qtBinding'',
          ''qtBindingVersion'', ''rezLocation'', ''rezVersion'', ''rezConfigFile'',
          ''rezPackagesPath'', ''rezLocalPath'', ''rezReleasePath'', ''settingsPath'',
          ''startupProfile'', ''useDevelopmentPackages'']"
proof -
  have "split CHR '':'' (release_packages_path demo_config)
          = [''/studio/packages'', ''/studio/ext'']"
    by (simp add: demo_config_def)
  moreover have "map fst (preference_writes CHR '':'' demo_sysinfo demo_config)
       = [''memcachedURI'', ''pythonExe'', ''pythonVersion'', ''qtVersion'', ''qtBinding'',
          ''qtBindingVersion'', ''rezLocation'', ''rezVersion'', ''rezConfigFile'',
          ''rezPackagesPath'', ''rezLocalPath'', ''rezReleasePath'', ''settingsPath'',
          ''startupProfile'', ''useDevelopmentPackages'']"
    by (simp add: preference_writes_def defaults_def demo_sysinfo_def)
  moreover have "startup_profile demo_sysinfo = PStr ''alita''"
    "startup_application demo_sysinfo = PStr []" "demo demo_sysinfo"
    by (simp_all add: demo_sysinfo_def)
  ultimately show ?thesis
    using preference_writes_values [of "CHR '':''" demo_sysinfo demo_config]
    by simp
qed

lemma demo_writes_local:
  "map snd (preference_writes CHR '':'' demo_sysinfo demo_config) ! 10
     = PList [PStr ''/home/u/packages'']"
  by (simp add: preference_writes_def defaults_def demo_config_def)

lemma not_all_primitive:
  "n < length vs \<Longrightarrow> \<not> is_primitive (vs ! n) \<Longrightarrow> \<not> list_all is_primitive vs"
  by (auto simp: list_all_length)

lemma demo_store:
  "map_of (load_preferences CHR '':'' demo_sysinfo demo_config [(''theme'', PStr ''dark'')])
     ''rezLocalPath''
     = Some (PList [PStr ''/home/u/packages''])"
  by code_simp

text \<open>
  The claim that only primitive values are stored fails in every run; here the eleventh
  write, \<^verbatim>\<open>rezLocalPath\<close>, is a list, and the list is what the settings hold afterwards.
\<close>

theorem preference_writes_store_lists:
  "map snd (preference_writes CHR '':'' demo_sysinfo demo_config) ! 10
     = PList [PStr ''/home/u/packages'']
   \<and> \<not> list_all is_primitive (map snd (preference_writes CHR '':'' demo_sysinfo demo_config))
   \<and> map_of (load_preferences CHR '':'' demo_sysinfo demo_config [(''theme'', PStr ''dark'')])
        ''rezLocalPath''
       = Some (PList [PStr ''/home/u/packages''])"
proof -
  have "10 < length (map snd (preference_writes CHR '':'' demo_sysinfo demo_config))"
    by (simp add: preference_writes_def defaults_def)
  moreover have
    "\<not> is_primitive (map snd (preference_writes CHR '':'' demo_sysinfo demo_config) ! 10)"
    by (simp only: demo_writes_local is_primitive.simps not_False_eq_True)
  ultimately have
    "\<not> list_all is_primitive (map snd (preference_writes CHR '':'' demo_sysinfo demo_config))"
    by (rule not_all_primitive)
  with demo_writes_local demo_store show ?thesis by simp
qed

subsection \<open>The order of the bootstrap\<close>

text \<open>An order of two steps in the script is kept by every run of it.\<close>

lemma precedes_run:
  assumes "\<And>e. b \<noteq> Raised e" and "precedes a b (map fst prog)"
  shows "precedes a b (run prog)"
  using assms(2)
proof (induction prog rule: run.induct)
  case 1
  show ?case by (simp add: precedes_def)
next
  case (2 s u rest)
  then show ?case by (auto simp: precedes_def split: if_splits)
next
  case (3 s e rest)
  then show ?case using assms(1) by (auto simp: precedes_def split: if_splits)
qed

lemma script_order:
  "precedes ConfigureLogging LoadUserconfig (map fst (main_script w))"
  "precedes LoadUserconfig CreateQApplication (map fst (main_script w))"
  "precedes CreateQApplication ExecEventLoop (map fst (main_script w))"
  by (simp_all add: main_script_def precedes_def)

text \<open>
  C7.  In every run of \<^verbatim>\<open>main\<close> the user's configuration is not loaded before logging is
  configured, the Qt application object is not created before the user's configuration is
  loaded, and the event loop is not started before the application object is created.
\<close>

theorem main_bootstrap_order:
  "precedes ConfigureLogging LoadUserconfig (main w)
   \<and> precedes LoadUserconfig CreateQApplication (main w)
   \<and> precedes CreateQApplication ExecEventLoop (main w)"
  unfolding main_def
  by (intro conjI precedes_run script_order) simp_all

lemma demo_load_good:
  "load_userconfig demo_userconfig_world demo_allzparkconfig (Some ''/cfg/good.py'')
     = Inr (''/cfg/good.py'',
            (\<lambda>key. case demo_allzparkconfig key of
                      None \<Rightarrow> None
                    | Some old \<Rightarrow>
                        if take 2 key = ''__'' then Some old
                        else (case [''__file__'' \<mapsto> PStr ''/cfg/good.py'',
                                    ''startup_profile'' \<mapsto> PStr ''alita''] key of
                                None \<Rightarrow> Some old
                              | Some v \<Rightarrow> Some v)))"
  by (simp add: load_userconfig_def userconfig_fname_def demo_userconfig_world_def
        demo_exec_file_def Let_def)

lemma demo_main:
  "main demo_boot =
     [ParseArgs, Banner, ConfigureLogging, LoadRez, PatchRezBinPath,
      ResolveNativeEnviron, LoadQt, ProvideVendorModules, LoadAllzpark,
      PatchAllzparkconfig, LoadUserconfig, BackwardsCompatibility, DieOnCtrlC,
      LoadPreferences, ImportLocalz, CreateQApplication, CreateController,
      InstallExcepthook, LoadThemes, CreateWindow, ShowWindow, ScheduleInit,
      ExecEventLoop]"
  by (simp add: main_def main_script_def demo_boot_def config_file_def timings_def
        userconfig_success_def initial_success_def demo_load_good nl_def)

text \<open>A run that reaches the event loop goes through the four steps, in this order.\<close>

theorem main_bootstrap_order_witness:
  "precedes ConfigureLogging LoadUserconfig (main demo_boot)
   \<and> precedes LoadUserconfig CreateQApplication (main demo_boot)
   \<and> precedes CreateQApplication ExecEventLoop (main demo_boot)
   \<and> filter (\<lambda>s. s \<in> {ConfigureLogging, LoadUserconfig, CreateQApplication, ExecEventLoop})
        (main demo_boot)
       = [ConfigureLogging, LoadUserconfig, CreateQApplication, ExecEventLoop]"
  using main_bootstrap_order [of demo_boot] by (simp add: demo_main)

subsection \<open>The exceptions that are raised\<close>

text \<open>A run has the steps of its script, and ends at the first step that raises.\<close>

lemma run_steps:
  "set (run prog) \<subseteq> fst ` set prog \<union> range Raised"
  by (induction prog rule: run.induct) auto

lemma run_stops:
  "run (pre @ (s, Inl e) # post) = run (pre @ [(s, Inl e)])"
  by (induction pre rule: run.induct) simp_all

lemma run_ends_raised:
  assumes "s \<notin> fst ` set pre" and "\<And>e'. s \<noteq> Raised e'"
  shows "s \<in> set (run (pre @ [(s, Inl e)])) \<Longrightarrow> last (run (pre @ [(s, Inl e)])) = Raised e"
  using assms(1)
proof (induction pre rule: run.induct)
  case 1
  then show ?case by simp
next
  case (2 s' u rest)
  from "2.prems"(2) have ne: "s' \<noteq> s" and rest: "s \<notin> fst ` set rest" by auto
  from "2.prems"(1) ne have mem: "s \<in> set (run (rest @ [(s, Inl e)]))" by simp
  then have "run (rest @ [(s, Inl e)]) \<noteq> []" by auto
  with "2.IH" [OF mem rest] show ?case by simp
next
  case (3 s' e' rest)
  from "3.prems"(2) have "s' \<noteq> s" by auto
  with "3.prems"(1) assms(2) show ?case by simp
qed


text \<open>
  The script up to the loading of the user's configuration; a \<^verbatim>\<open>UserError\<close> there
  ends the run with \<^verbatim>\<open>exit(1)\<close>, before the exception hook is installed.
\<close>

lemma before_userconfig:
  "fst ` set (takeWhile (\<lambda>sr. fst sr \<noteq> LoadUserconfig) (main_script w))
     \<subseteq> {ParseArgs, RedirectStdio, TellVersion, Banner, ConfigureLogging, LoadDemo, LoadRez,
         PatchRezBinPath, ResolveNativeEnviron, LoadQt, ProvideVendorModules, LoadAllzpark,
         PatchAllzparkconfig}"
  by (simp add: main_script_def)

lemma at_userconfig:
  "\<exists>post. dropWhile (\<lambda>sr. fst sr \<noteq> LoadUserconfig) (main_script w)
     = (LoadUserconfig,
        timings (format_elapsed w) (userconfig_success w)
          (case load_userconfig (config_world w) (allzparkconfig_attrs w) (config_file w) of
             Inl e \<Rightarrow> if e = IOError then Inr () else Inl e
           | Inr loaded \<Rightarrow> Inr ())) # post"
  by (simp add: main_script_def)

lemma main_ends_at_userconfig:
  assumes "load_userconfig (config_world w) (allzparkconfig_attrs w) (config_file w)
             = Inl (UserError m)"
  shows "InstallExcepthook \<notin> set (main w)"
    and "LoadUserconfig \<in> set (main w) \<Longrightarrow> last (main w) = Raised (SystemExit 1)"
proof -
  let ?P = "\<lambda>sr. fst sr \<noteq> LoadUserconfig"
  let ?pre = "takeWhile ?P (main_script w)"
  from at_userconfig [of w] assms obtain post where
    d: "dropWhile ?P (main_script w) = (LoadUserconfig, Inl (SystemExit 1)) # post"
    by (auto simp: timings_def)
  have "main_script w = ?pre @ dropWhile ?P (main_script w)" by simp
  with d have split: "main_script w = ?pre @ (LoadUserconfig, Inl (SystemExit 1)) # post"
    by simp
  have r: "main w = run (?pre @ [(LoadUserconfig, Inl (SystemExit 1))])"
    unfolding main_def by (subst split) (rule run_stops)
  have pre: "LoadUserconfig \<notin> fst ` set ?pre"
    by (auto dest: set_takeWhileD)
  have "set (main w) \<subseteq> fst ` set ?pre \<union> {LoadUserconfig} \<union> range Raised"
    unfolding r using run_steps [of "?pre @ [(LoadUserconfig, Inl (SystemExit 1))]"] by auto
  moreover have "InstallExcepthook \<notin> fst ` set ?pre"
  proof
    assume "InstallExcepthook \<in> fst ` set ?pre"
    with before_userconfig [of w] have
      "InstallExcepthook \<in> {ParseArgs, RedirectStdio, TellVersion, Banner, ConfigureLogging,
         LoadDemo, LoadRez, PatchRezBinPath, ResolveNativeEnviron, LoadQt,
         ProvideVendorModules, LoadAllzpark, PatchAllzparkconfig}"
      by (rule subsetD)
    then show False by simp
  qed
  ultimately show "InstallExcepthook \<notin> set (main w)" by blast
  show "last (main w) = Raised (SystemExit 1)" if "LoadUserconfig \<in> set (main w)"
    using that run_ends_raised [OF pre, of "SystemExit 1"] unfolding r by simp
qed


text \<open>The three operations, case by case.\<close>

lemma find_latest_cases:
  "rez_find name vrange None = Inl e \<Longrightarrow> find_latest rez_find name vrange paths = Inl e"
  "rez_find name vrange None = Inr [] \<Longrightarrow>
     find_latest rez_find name vrange paths
       = Inl (PackageNotFoundError (''package family not found: '' @ name))"
  "rez_find name vrange None = Inr it \<Longrightarrow> it \<noteq> [] \<Longrightarrow>
     find_latest rez_find name vrange paths = Inr (last (sort_key pkg_version it))"
proof -
  show "find_latest rez_find name vrange paths = Inl e"
    if "rez_find name vrange None = Inl e"
    using that by (simp add: find_latest_def)
  show "find_latest rez_find name vrange paths
       = Inl (PackageNotFoundError (''package family not found: '' @ name))"
    if "rez_find name vrange None = Inr []"
    using that by (simp add: find_latest_def last_item_def)
  show "find_latest rez_find name vrange paths = Inr (last (sort_key pkg_version it))"
    if "rez_find name vrange None = Inr it" and "it \<noteq> []"
  proof -
    from that(2) have "length (sort_key pkg_version it) \<noteq> 0" by simp
    then have "sort_key pkg_version it \<noteq> []" by (simp only: length_0_conv not_False_eq_True)
    then obtain p ps where "sort_key pkg_version it = p # ps"
      by (cases "sort_key pkg_version it") auto
    with that(1) show ?thesis by (simp add: find_latest_def last_item_def)
  qed
qed

lemma load_userconfig_cases:
  "exec_file u (userconfig_fname u fname) = Inl IOError \<Longrightarrow>
     load_userconfig u attrs fname = Inl IOError"
  "exec_file u (userconfig_fname u fname) = Inl e \<Longrightarrow> e \<noteq> IOError \<Longrightarrow> is_Exception e \<Longrightarrow>
     load_userconfig u attrs fname = Inl (UserError ''Better double-check your user config'')"
  "exec_file u (userconfig_fname u fname) = Inl e \<Longrightarrow> \<not> is_Exception e \<Longrightarrow>
     load_userconfig u attrs fname = Inl e"
  "exec_file u (userconfig_fname u fname) = Inr module \<Longrightarrow>
     \<exists>attrs'. load_userconfig u attrs fname = Inr (userconfig_fname u fname, attrs')"
  by (auto simp: load_userconfig_def Let_def)

lemma timings_cases:
  "is_Exception e \<Longrightarrow> timings fmt success (Inl e) = Inl (SystemExit 1)"
  "\<not> is_Exception e \<Longrightarrow> timings fmt success (Inl e) = Inl e"
  "fmt success = Inr line \<Longrightarrow> timings fmt success (Inr x) = Inr x"
  "fmt success = Inl e \<Longrightarrow> timings fmt success (Inr x) = Inl e"
  by (simp_all add: timings_def)

lemma main_passes_over_IOError:
  assumes "load_userconfig (config_world w) (allzparkconfig_attrs w) (config_file w)
             = Inl IOError"
    and "format_elapsed w (initial_success True) = Inr line"
  shows "(LoadUserconfig, Inr ()) \<in> set (main_script w)"
  using assms by (simp add: main_script_def timings_def userconfig_success_def)

text \<open>
  C1, as the code has it.  \<^verbatim>\<open>find_latest\<close> raises unchanged what the package query
  raises, raises the wrapped library's \<^verbatim>\<open>PackageNotFoundError\<close> when the query finds
  nothing, and returns otherwise.  \<^verbatim>\<open>_load_userconfig\<close> raises an \<^verbatim>\<open>IOError\<close> of the
  file unchanged, replaces every other \<^verbatim>\<open>Exception\<close> by \<^verbatim>\<open>UserError\<close> (a type that
  \<^verbatim>\<open>cli.py\<close> defines itself, not one of the wrapped library's), lets anything else
  through, and returns when the file executes.  A \<^verbatim>\<open>timings\<close> block answers every
  \<^verbatim>\<open>Exception\<close> of its body with \<^verbatim>\<open>exit(1)\<close> and lets any other exit of the body
  through; when the body returns, the block returns if its success message can be
  formatted, and otherwise raises what the formatting raised.  In \<^verbatim>\<open>main\<close> an
  \<^verbatim>\<open>IOError\<close> of the user's configuration is passed over, and a \<^verbatim>\<open>UserError\<close> of it
  ends the run with \<^verbatim>\<open>exit(1)\<close> before the exception hook is installed.
\<close>

theorem raised_exceptions:
  "(rez_find name vrange None = Inl e1 \<longrightarrow>
      find_latest rez_find name vrange paths = Inl e1)
   \<and> (rez_find name vrange None = Inr [] \<longrightarrow>
        find_latest rez_find name vrange paths
          = Inl (PackageNotFoundError (''package family not found: '' @ name)))
   \<and> (rez_find name vrange None = Inr it \<longrightarrow> it \<noteq> [] \<longrightarrow>
        find_latest rez_find name vrange paths = Inr (last (sort_key pkg_version it)))
   \<and> (exec_file u (userconfig_fname u fname) = Inl IOError \<longrightarrow>
        load_userconfig u attrs fname = Inl IOError)
   \<and> (exec_file u (userconfig_fname u fname) = Inl e2 \<longrightarrow> e2 \<noteq> IOError \<longrightarrow> is_Exception e2 \<longrightarrow>
        load_userconfig u attrs fname = Inl (UserError ''Better double-check your user config''))
   \<and> (exec_file u (userconfig_fname u fname) = Inl e2 \<longrightarrow> \<not> is_Exception e2 \<longrightarrow>
        load_userconfig u attrs fname = Inl e2)
   \<and> (exec_file u (userconfig_fname u fname) = Inr module \<longrightarrow>
        (\<exists>attrs'. load_userconfig u attrs fname = Inr (userconfig_fname u fname, attrs')))
   \<and> \<not> is_rez_exception (UserError m)
   \<and> (is_Exception e3 \<longrightarrow> timings fmt success (Inl e3) = Inl (SystemExit 1))
   \<and> (\<not> is_Exception e3 \<longrightarrow> timings fmt success (Inl e3) = Inl e3)
   \<and> (fmt success = Inr line \<longrightarrow> timings fmt success (Inr x) = Inr x)
   \<and> (fmt success = Inl e4 \<longrightarrow> timings fmt success (Inr x) = Inl e4)
   \<and> (load_userconfig (config_world w) (allzparkconfig_attrs w) (config_file w) = Inl IOError
        \<longrightarrow> format_elapsed w (initial_success True) = Inr line'
        \<longrightarrow> (LoadUserconfig, Inr ()) \<in> set (main_script w))
   \<and> (load_userconfig (config_world w) (allzparkconfig_attrs w) (config_file w)
          = Inl (UserError m')
        \<longrightarrow> InstallExcepthook \<notin> set (main w)
            \<and> (LoadUserconfig \<in> set (main w) \<longrightarrow> last (main w) = Raised (SystemExit 1)))"
proof -
  have c1: "rez_find name vrange None = Inl e1 \<longrightarrow>
      find_latest rez_find name vrange paths = Inl e1"
    by (simp add: find_latest_cases(1))
  have c2: "rez_find name vrange None = Inr [] \<longrightarrow>
        find_latest rez_find name vrange paths
          = Inl (PackageNotFoundError (''package family not found: '' @ name))"
    by (simp add: find_latest_cases(2))
  have c3: "rez_find name vrange None = Inr it \<longrightarrow> it \<noteq> [] \<longrightarrow>
        find_latest rez_find name vrange paths = Inr (last (sort_key pkg_version it))"
    by (simp add: find_latest_cases(3))
  have c4: "exec_file u (userconfig_fname u fname) = Inl IOError \<longrightarrow>
        load_userconfig u attrs fname = Inl IOError"
    by (simp add: load_userconfig_cases(1))
  have c5: "exec_file u (userconfig_fname u fname) = Inl e2 \<longrightarrow> e2 \<noteq> IOError
        \<longrightarrow> is_Exception e2 \<longrightarrow>
        load_userconfig u attrs fname = Inl (UserError ''Better double-check your user config'')"
    by (simp add: load_userconfig_cases(2))
  have c6: "exec_file u (userconfig_fname u fname) = Inl e2 \<longrightarrow> \<not> is_Exception e2 \<longrightarrow>
        load_userconfig u attrs fname = Inl e2"
    by (simp add: load_userconfig_cases(3))
  have c7: "exec_file u (userconfig_fname u fname) = Inr module \<longrightarrow>
        (\<exists>attrs'. load_userconfig u attrs fname = Inr (userconfig_fname u fname, attrs'))"
    using load_userconfig_cases(4) [of u fname "module" attrs] by blast
  have c8: "\<not> is_rez_exception (UserError m)" by simp
  have c9: "is_Exception e3 \<longrightarrow> timings fmt success (Inl e3) = Inl (SystemExit 1)"
    by (simp add: timings_cases(1))
  have c10: "\<not> is_Exception e3 \<longrightarrow> timings fmt success (Inl e3) = Inl e3"
    by (simp add: timings_cases(2))
  have c11: "fmt success = Inr line \<longrightarrow> timings fmt success (Inr x) = Inr x"
    by (simp add: timings_cases(3))
  have c12: "fmt success = Inl e4 \<longrightarrow> timings fmt success (Inr x) = Inl e4"
    by (simp add: timings_cases(4))
  have c13: "load_userconfig (config_world w) (allzparkconfig_attrs w) (config_file w)
          = Inl IOError
        \<longrightarrow> format_elapsed w (initial_success True) = Inr line'
        \<longrightarrow> (LoadUserconfig, Inr ()) \<in> set (main_script w)"
    using main_passes_over_IOError [of w line'] by blast
  have c14: "load_userconfig (config_world w) (allzparkconfig_attrs w) (config_file w)
          = Inl (UserError m')
        \<longrightarrow> InstallExcepthook \<notin> set (main w)
            \<and> (LoadUserconfig \<in> set (main w) \<longrightarrow> last (main w) = Raised (SystemExit 1))"
    using main_ends_at_userconfig [of w m'] by blast
  show ?thesis
    by (intro conjI c1 c2 c3 c4 c5 c6 c7 c8 c9 c10 c11 c12 c13 c14)
qed


text \<open>
  A repository that cannot be read, a family that is not there, and one that is; no
  configuration file, one that does not compile, one that exits, and a good one; a body
  that raises, one that exits, one that returns, and a success message with a brace in the
  file name.
\<close>

theorem raised_exceptions_witness:
  "find_latest failing_find ''maya'' None None = Inl RezError
   \<and> find_latest demo_find ''houdini'' None None
       = Inl (PackageNotFoundError ''package family not found: houdini'')
   \<and> find_latest demo_find ''maya'' None None = Inr \<lparr>pkg_name = ''maya'', pkg_version = 2020\<rparr>
   \<and> load_userconfig demo_userconfig_world demo_allzparkconfig None = Inl IOError
   \<and> load_userconfig demo_userconfig_world demo_allzparkconfig (Some ''/cfg/broken.py'')
       = Inl (UserError ''Better double-check your user config'')
   \<and> load_userconfig demo_userconfig_world demo_allzparkconfig (Some ''/cfg/exit.py'')
       = Inl (SystemExit 3)
   \<and> (\<exists>attrs'. load_userconfig demo_userconfig_world demo_allzparkconfig (Some ''/cfg/good.py'')
                  = Inr (''/cfg/good.py'', attrs'))
   \<and> timings demo_format_elapsed (initial_success True) (Inl SyntaxError) = Inl (SystemExit 1)
   \<and> timings demo_format_elapsed (initial_success True) (Inl (SystemExit 3)) = Inl (SystemExit 3)
   \<and> timings demo_format_elapsed (initial_success True) (Inr ()) = Inr ()
   \<and> timings demo_format_elapsed (''ok {:.2f} (/cfg/{x}.py)'' @ nl) (Inr ()) = Inl KeyError
   \<and> (LoadUserconfig, Inr ()) \<in> set (main_script (demo_boot\<lparr>opt_config_file := None\<rparr>))
   \<and> InstallExcepthook \<notin> set (main (demo_boot\<lparr>opt_config_file := Some ''/cfg/broken.py''\<rparr>))"
proof -
  let ?u = demo_userconfig_world
  have f1: "failing_find ''maya'' None None = Inl RezError"
    by (simp add: failing_find_def)
  have f2: "demo_find ''houdini'' None None = Inr []"
    by (simp add: demo_find_def)
  have f3: "demo_find ''maya'' None None
              = Inr [\<lparr>pkg_name = ''maya'', pkg_version = 2019\<rparr>,
                     \<lparr>pkg_name = ''maya'', pkg_version = 2020\<rparr>,
                     \<lparr>pkg_name = ''maya'', pkg_version = 2018\<rparr>]"
    by (simp add: demo_find_def)
  have x1: "exec_file ?u (userconfig_fname ?u None) = Inl IOError"
    by (simp add: userconfig_fname_def demo_userconfig_world_def demo_exec_file_def)
  have x2: "exec_file ?u (userconfig_fname ?u (Some ''/cfg/broken.py'')) = Inl SyntaxError"
    by (simp add: userconfig_fname_def demo_userconfig_world_def demo_exec_file_def)
  have x3: "exec_file ?u (userconfig_fname ?u (Some ''/cfg/exit.py'')) = Inl (SystemExit 3)"
    by (simp add: userconfig_fname_def demo_userconfig_world_def demo_exec_file_def)
  have x4: "exec_file ?u (userconfig_fname ?u (Some ''/cfg/good.py''))
              = Inr [''__file__'' \<mapsto> PStr ''/cfg/good.py'', ''startup_profile'' \<mapsto> PStr ''alita'']"
    by (simp add: userconfig_fname_def demo_userconfig_world_def demo_exec_file_def)
  have n4: "userconfig_fname ?u (Some ''/cfg/good.py'') = ''/cfg/good.py''"
    by (simp add: userconfig_fname_def)
  have t1: "demo_format_elapsed (initial_success True) = Inr (''ok - 0.05'' @ nl)"
    by (simp add: initial_success_def nl_def)
  have t2: "demo_format_elapsed (''ok {:.2f} (/cfg/{x}.py)'' @ nl) = Inl KeyError"
    by (simp add: nl_def)
  let ?w1 = "demo_boot\<lparr>opt_config_file := None\<rparr>"
  let ?w2 = "demo_boot\<lparr>opt_config_file := Some ''/cfg/broken.py''\<rparr>"
  note T1 = raised_exceptions
    [where rez_find = failing_find and name = "''maya''" and vrange = None and paths = None
       and ?e1.0 = RezError and u = ?u and fname = None and attrs = demo_allzparkconfig
       and ?e3.0 = SyntaxError and fmt = demo_format_elapsed
       and success = "initial_success True" and line = "''ok - 0.05'' @ nl" and x = "()"
       and w = ?w1 and line' = "''ok - 0.05'' @ nl"]
  note T2 = raised_exceptions
    [where rez_find = demo_find and name = "''houdini''" and vrange = None and paths = None
       and u = ?u and fname = "Some ''/cfg/broken.py''" and attrs = demo_allzparkconfig
       and ?e2.0 = SyntaxError and ?e3.0 = "SystemExit 3" and fmt = demo_format_elapsed
       and success = "''ok {:.2f} (/cfg/{x}.py)'' @ nl" and ?e4.0 = KeyError and x = "()"
       and w = ?w2 and m' = "''Better double-check your user config''"]
  note T3 = raised_exceptions
    [where rez_find = demo_find and name = "''maya''" and vrange = None and paths = None
       and it = "[\<lparr>pkg_name = ''maya'', pkg_version = 2019\<rparr>,
                  \<lparr>pkg_name = ''maya'', pkg_version = 2020\<rparr>,
                  \<lparr>pkg_name = ''maya'', pkg_version = 2018\<rparr>]"
       and u = ?u and fname = "Some ''/cfg/exit.py''" and attrs = demo_allzparkconfig
       and ?e2.0 = "SystemExit 3" and ?e3.0 = "SystemExit 3" and fmt = demo_format_elapsed
       and success = "initial_success True"]
  note T4 = raised_exceptions
    [where u = ?u and fname = "Some ''/cfg/good.py''" and attrs = demo_allzparkconfig
       and module = "[''__file__'' \<mapsto> PStr ''/cfg/good.py'',
                      ''startup_profile'' \<mapsto> PStr ''alita'']"]
  have a1: "find_latest failing_find ''maya'' None None = Inl RezError"
    using T1 [THEN conjunct1, THEN mp, OF f1] .
  have a2: "find_latest demo_find ''houdini'' None None
       = Inl (PackageNotFoundError ''package family not found: houdini'')"
    using T2 [THEN conjunct2, THEN conjunct1, THEN mp, OF f2] by simp
  have a3: "find_latest demo_find ''maya'' None None
       = Inr \<lparr>pkg_name = ''maya'', pkg_version = 2020\<rparr>"
    using T3 [THEN conjunct2, THEN conjunct2, THEN conjunct1, THEN mp, THEN mp, OF f3] by simp
  have a4: "load_userconfig ?u demo_allzparkconfig None = Inl IOError"
    using T1 [THEN conjunct2, THEN conjunct2, THEN conjunct2, THEN conjunct1, THEN mp, OF x1] .
  have a5: "load_userconfig ?u demo_allzparkconfig (Some ''/cfg/broken.py'')
       = Inl (UserError ''Better double-check your user config'')"
    using T2 [THEN conjunct2, THEN conjunct2, THEN conjunct2, THEN conjunct2, THEN conjunct1,
      THEN mp, THEN mp, THEN mp, OF x2] by simp
  have a6: "load_userconfig ?u demo_allzparkconfig (Some ''/cfg/exit.py'') = Inl (SystemExit 3)"
    using T3 [THEN conjunct2, THEN conjunct2, THEN conjunct2, THEN conjunct2, THEN conjunct2,
      THEN conjunct1, THEN mp, THEN mp, OF x3] by simp
  have a7: "\<exists>attrs'. load_userconfig ?u demo_allzparkconfig (Some ''/cfg/good.py'')
                  = Inr (''/cfg/good.py'', attrs')"
    using T4 [THEN conjunct2, THEN conjunct2, THEN conjunct2, THEN conjunct2, THEN conjunct2,
      THEN conjunct2, THEN conjunct1, THEN mp, OF x4] by (simp only: n4)
  have a9: "timings demo_format_elapsed (initial_success True) (Inl SyntaxError)
              = Inl (SystemExit 1)"
    using T1 [THEN conjunct2, THEN conjunct2, THEN conjunct2, THEN conjunct2, THEN conjunct2,
      THEN conjunct2, THEN conjunct2, THEN conjunct2, THEN conjunct1] by simp
  have a10: "timings demo_format_elapsed (initial_success True) (Inl (SystemExit 3))
              = Inl (SystemExit 3)"
    using T3 [THEN conjunct2, THEN conjunct2, THEN conjunct2, THEN conjunct2, THEN conjunct2,
      THEN conjunct2, THEN conjunct2, THEN conjunct2, THEN conjunct2, THEN conjunct1] by simp
  have a11: "timings demo_format_elapsed (initial_success True) (Inr ()) = Inr ()"
    using T1 [THEN conjunct2, THEN conjunct2, THEN conjunct2, THEN conjunct2, THEN conjunct2,
      THEN conjunct2, THEN conjunct2, THEN conjunct2, THEN conjunct2, THEN conjunct2,
      THEN conjunct1, THEN mp, OF t1] .
  have a12: "timings demo_format_elapsed (''ok {:.2f} (/cfg/{x}.py)'' @ nl) (Inr ()) = Inl KeyError"
    using T2 [THEN conjunct2, THEN conjunct2, THEN conjunct2, THEN conjunct2, THEN conjunct2,
      THEN conjunct2, THEN conjunct2, THEN conjunct2, THEN conjunct2, THEN conjunct2,
      THEN conjunct2, THEN conjunct1, THEN mp, OF t2] .
  have w1: "load_userconfig (config_world ?w1) (allzparkconfig_attrs ?w1) (config_file ?w1)
              = Inl IOError"
    using a4 by (simp add: demo_boot_def config_file_def)
  have w1f: "format_elapsed ?w1 (initial_success True) = Inr (''ok - 0.05'' @ nl)"
    using t1 by (simp add: demo_boot_def)
  have a13: "(LoadUserconfig, Inr ()) \<in> set (main_script ?w1)"
    using T1 [THEN conjunct2, THEN conjunct2, THEN conjunct2, THEN conjunct2, THEN conjunct2,
      THEN conjunct2, THEN conjunct2, THEN conjunct2, THEN conjunct2, THEN conjunct2,
      THEN conjunct2, THEN conjunct2, THEN conjunct1, THEN mp, THEN mp, OF w1 w1f] .
  have w2: "load_userconfig (config_world ?w2) (allzparkconfig_attrs ?w2) (config_file ?w2)
              = Inl (UserError ''Better double-check your user config'')"
    using a5 by (simp add: demo_boot_def config_file_def)
  have a14: "InstallExcepthook \<notin> set (main ?w2)"
    using T2 [THEN conjunct2, THEN conjunct2, THEN conjunct2, THEN conjunct2, THEN conjunct2,
      THEN conjunct2, THEN conjunct2, THEN conjunct2, THEN conjunct2, THEN conjunct2,
      THEN conjunct2, THEN conjunct2, THEN conjunct2, THEN mp, OF w2] by (rule conjunct1)
  from a1 a2 a3 a4 a5 a6 a7 a9 a10 a11 a12 a13 a14 show ?thesis
    by (intro conjI)
qed

text \<open>
  The claim fails at a configuration file that does not compile: the exception raised is
  the repository's own \<^verbatim>\<open>UserError\<close>, which is not one of the wrapped library's, and the
  \<^verbatim>\<open>timings\<close> block around the call ends the run with \<^verbatim>\<open>exit(1)\<close> before an
  exception hook is installed.
\<close>

theorem load_userconfig_raises_UserError:
  "exec_file demo_userconfig_world ''/cfg/broken.py'' = Inl SyntaxError
   \<and> load_userconfig demo_userconfig_world demo_allzparkconfig (Some ''/cfg/broken.py'')
       = Inl (UserError ''Better double-check your user config'')
   \<and> \<not> is_rez_exception (UserError ''Better double-check your user config'')
   \<and> main (demo_boot\<lparr>opt_config_file := Some ''/cfg/broken.py''\<rparr>)
       = [ParseArgs, Banner, ConfigureLogging, LoadRez, PatchRezBinPath,
          ResolveNativeEnviron, LoadQt, ProvideVendorModules, LoadAllzpark,
          PatchAllzparkconfig, LoadUserconfig, Raised (SystemExit 1)]"
  by (simp add: timings_def load_userconfig_def userconfig_fname_def demo_userconfig_world_def
        demo_exec_file_def main_def main_script_def demo_boot_def config_file_def nl_def)

end
